theory Spec2Isabelle
  imports Main "HOL-Library.Word"
begin

section \<open>Values of the JavaScript runtime\<close>

text \<open>
  A \<^verbatim>\<open>Uint8Array\<close> is a list of 8-bit words; a JavaScript string is a list of UTF-16 code
  units (16-bit words), which is what \<^verbatim>\<open>split('')\<close>, \<^verbatim>\<open>charCodeAt\<close> and
  \<^verbatim>\<open>String.fromCharCode\<close> work on.
\<close>

type_synonym byte = "8 word"
type_synonym bytes = "byte list"
type_synonym codeunit = "16 word"
type_synonym jsstring = "codeunit list"

definition js :: "string \<Rightarrow> jsstring" where
  \<comment> \<open>an ASCII literal of the source as a JavaScript string\<close>
  "js s = map (\<lambda>c. of_nat (of_char c)) s"

datatype exn =
    InvalidCharacterError
  | OperationError
  | RangeError
  | Error string

subsection \<open>\<^verbatim>\<open>String.fromCharCode(...bytes)\<close>, \<^verbatim>\<open>s.split('').map(c => c.charCodeAt(0))\<close>, \<^verbatim>\<open>new Uint8Array(numbers)\<close>\<close>

text \<open>
  A call \<^verbatim>\<open>f(...xs)\<close> passes one argument for each element of \<open>xs\<close>. An engine
  accepts only so many arguments in a call and throws a \<^verbatim>\<open>RangeError\<close> beyond that; the
  limit is a parameter.
\<close>

definition spread :: "nat \<Rightarrow> 'a list \<Rightarrow> exn + 'a list" where
  "spread limit xs = (if length xs \<le> limit then Inr xs else Inl RangeError)"

definition fromCharCode :: "bytes \<Rightarrow> jsstring" where
  "fromCharCode bs = map ucast bs"

definition charCodes :: "jsstring \<Rightarrow> nat list" where
  "charCodes s = map unat s"

definition Uint8Array_from :: "nat list \<Rightarrow> bytes" where
  \<comment> \<open>each number is stored modulo 256\<close>
  "Uint8Array_from ns = map of_nat ns"

subsection \<open>\<^verbatim>\<open>btoa\<close> and \<^verbatim>\<open>atob\<close>\<close>

definition b64alphabet :: jsstring where
  "b64alphabet = js ''ABCDEFGHIJKLMNOPQRSTUVWXYZabcdefghijklmnopqrstuvwxyz0123456789+/''"

definition b64pad :: codeunit where
  "b64pad = 61"

definition b64char :: "nat \<Rightarrow> codeunit" where
  "b64char i = b64alphabet ! i"

fun index_of :: "'a \<Rightarrow> 'a list \<Rightarrow> nat option" where
  "index_of x [] = None"
| "index_of x (y # ys) = (if x = y then Some 0 else map_option Suc (index_of x ys))"

definition b64index :: "codeunit \<Rightarrow> nat option" where
  "b64index c = index_of c b64alphabet"

fun base64_encode :: "bytes \<Rightarrow> jsstring" where
  "base64_encode [] = []"
| "base64_encode [a] =
     [b64char (unat a div 4), b64char ((unat a mod 4) * 16), b64pad, b64pad]"
| "base64_encode [a, b] =
     [b64char (unat a div 4), b64char ((unat a mod 4) * 16 + unat b div 16),
      b64char ((unat b mod 16) * 4), b64pad]"
| "base64_encode (a # b # c # rest) =
     [b64char (unat a div 4), b64char ((unat a mod 4) * 16 + unat b div 16),
      b64char ((unat b mod 16) * 4 + unat c div 64), b64char (unat c mod 64)]
     @ base64_encode rest"

definition btoa :: "jsstring \<Rightarrow> exn + jsstring" where
  \<comment> \<open>throws when a character is outside Latin-1, else base64 of the character codes\<close>
  "btoa s = (if list_all (\<lambda>c. unat c \<le> 255) s
             then Inr (base64_encode (map ucast s))
             else Inl InvalidCharacterError)"

definition ascii_whitespace :: "codeunit \<Rightarrow> bool" where
  "ascii_whitespace c = (c = 9 \<or> c = 10 \<or> c = 12 \<or> c = 13 \<or> c = 32)"

definition strip_padding :: "jsstring \<Rightarrow> jsstring" where
  \<comment> \<open>a string whose length is a multiple of 4 loses one or two trailing \<^verbatim>\<open>=\<close>\<close>
  "strip_padding d =
     (if length d mod 4 = 0 \<and> d \<noteq> [] \<and> last d = b64pad
      then (if butlast d \<noteq> [] \<and> last (butlast d) = b64pad
            then butlast (butlast d) else butlast d)
      else d)"

fun base64_decode :: "nat list \<Rightarrow> bytes" where
  "base64_decode (s1 # s2 # s3 # s4 # rest) =
     [of_nat (s1 * 4 + s2 div 16), of_nat ((s2 mod 16) * 16 + s3 div 4),
      of_nat ((s3 mod 4) * 64 + s4)] @ base64_decode rest"
| "base64_decode [s1, s2, s3] =
     [of_nat (s1 * 4 + s2 div 16), of_nat ((s2 mod 16) * 16 + s3 div 4)]"
| "base64_decode [s1, s2] = [of_nat (s1 * 4 + s2 div 16)]"
| "base64_decode [s1] = []"
| "base64_decode [] = []"

definition atob :: "jsstring \<Rightarrow> exn + jsstring" where
  \<comment> \<open>the forgiving base64 decoder of the HTML standard\<close>
  "atob s =
     (let d = strip_padding (filter (\<lambda>c. \<not> ascii_whitespace c) s)
      in if length d mod 4 = 1 then Inl InvalidCharacterError
         else (case those (map b64index d) of
                 None \<Rightarrow> Inl InvalidCharacterError
               | Some sextets \<Rightarrow> Inr (fromCharCode (base64_decode sextets))))"

definition base64ToBytes :: "jsstring \<Rightarrow> exn + bytes" where
  \<comment> \<open>crypto.ts lines 69-71: \<^verbatim>\<open>new Uint8Array(atob(s).split('').map(c => c.charCodeAt(0)))\<close>\<close>
  "base64ToBytes s =
     (case atob s of Inl e \<Rightarrow> Inl e | Inr t \<Rightarrow> Inr (Uint8Array_from (charCodes t)))"


subsection \<open>\<^verbatim>\<open>Number.prototype.toString(16)\<close> and \<^verbatim>\<open>String.prototype.padStart\<close>\<close>

definition hexdigit :: "nat \<Rightarrow> codeunit" where
  "hexdigit d = js ''0123456789abcdef'' ! d"

fun toString16 :: "nat \<Rightarrow> jsstring" where
  "toString16 n =
     (if n < 16 then [hexdigit n] else toString16 (n div 16) @ [hexdigit (n mod 16)])"

declare toString16.simps [simp del]

definition padStart :: "nat \<Rightarrow> jsstring \<Rightarrow> jsstring \<Rightarrow> jsstring" where
  "padStart targetLength padString s =
     (if targetLength \<le> length s \<or> padString = [] then s
      else take (targetLength - length s)
             (concat (replicate (targetLength - length s) padString)) @ s)"

section \<open>The Web Crypto API\<close>

text \<open>
  \<^verbatim>\<open>crypto.getRandomValues\<close> reads the next bytes of the generator; the generator is the
  infinite sequence of bytes it will still hand out. The module \<^verbatim>\<open>crypto.ts\<close> has no
  mutable state of its own and calls neither the clock nor the storage, so the generator
  is the only ambient input its functions can reach: each of them takes the generator and
  returns it as the call leaves it.
\<close>

type_synonym entropy = "nat \<Rightarrow> byte"

definition getRandomValues :: "nat \<Rightarrow> entropy \<Rightarrow> bytes \<times> entropy" where
  "getRandomValues n rng = (map rng [0..<n], \<lambda>i. rng (n + i))"

datatype kdfAlg = PBKDF2 | HKDF

datatype hashAlg = SHA_1 | SHA_256 | SHA_384 | SHA_512

datatype cipherAlg = AES_CBC | AES_CTR | AES_GCM

record Pbkdf2Params =
  kdf_name :: kdfAlg
  pbkdf2_salt :: bytes
  iterations :: nat
  hash :: hashAlg

record AesDerivedKeyParams =
  aes_name :: cipherAlg
  aes_length :: nat

text \<open>
  The primitives of the browser that \<^verbatim>\<open>crypto.ts\<close> calls are not part of the repository;
  the functions below take them as a parameter. \<open>'bk\<close> is the type of the imported
  password key, \<open>'k\<close> the type of the derived \<^verbatim>\<open>CryptoKey\<close>. Decryption answers
  \<open>None\<close> where \<^verbatim>\<open>crypto.subtle.decrypt\<close> rejects with an \<^verbatim>\<open>OperationError\<close>.
  The key format \<^verbatim>\<open>'raw'\<close>, the flag \<^verbatim>\<open>extractable = false\<close> and the key usages are
  the same in every call and are left out. \<open>argumentLimit\<close> is the number of arguments the
  engine accepts in one call.
\<close>

record ('bk, 'k) platform =
  argumentLimit :: nat
  TextEncoder_encode :: "jsstring \<Rightarrow> bytes"
  TextDecoder_decode :: "bytes \<Rightarrow> jsstring"
  subtle_importKey :: "bytes \<Rightarrow> kdfAlg \<Rightarrow> 'bk"
  subtle_deriveKey :: "Pbkdf2Params \<Rightarrow> 'bk \<Rightarrow> AesDerivedKeyParams \<Rightarrow> 'k"
  subtle_encrypt :: "cipherAlg \<Rightarrow> bytes \<Rightarrow> 'k \<Rightarrow> bytes \<Rightarrow> bytes"
  subtle_decrypt :: "cipherAlg \<Rightarrow> bytes \<Rightarrow> 'k \<Rightarrow> bytes \<Rightarrow> bytes option"

section \<open>\<^verbatim>\<open>src/lib/crypto.ts\<close>\<close>

definition ENCRYPTION_ALGORITHM :: cipherAlg where
  "ENCRYPTION_ALGORITHM = AES_GCM"

definition KEY_LENGTH :: nat where
  "KEY_LENGTH = 256"

definition IV_LENGTH :: nat where
  "IV_LENGTH = 12"

definition SALT_LENGTH :: nat where
  "SALT_LENGTH = 16"

record EncryptedData =
  encrypted :: jsstring
  iv :: jsstring
  salt :: jsstring

definition bytesToBase64 :: "('bk, 'k) platform \<Rightarrow> bytes \<Rightarrow> exn + jsstring" where
  \<comment> \<open>lines 58-60: \<^verbatim>\<open>btoa(String.fromCharCode(...bytes))\<close>\<close>
  "bytesToBase64 P bs =
     (case spread (argumentLimit P) bs of
        Inl e \<Rightarrow> Inl e
      | Inr codes \<Rightarrow> btoa (fromCharCode codes))"

definition deriveKey :: "('bk, 'k) platform \<Rightarrow> jsstring \<Rightarrow> bytes \<Rightarrow> 'k" where
  "deriveKey P password saltBytes =
     (let baseKey = subtle_importKey P (TextEncoder_encode P password) PBKDF2
      in subtle_deriveKey P
           \<lparr>kdf_name = PBKDF2, pbkdf2_salt = saltBytes, iterations = 100000, hash = SHA_256\<rparr>
           baseKey
           \<lparr>aes_name = ENCRYPTION_ALGORITHM, aes_length = KEY_LENGTH\<rparr>)"

definition encryptData ::
  "('bk, 'k) platform \<Rightarrow> jsstring \<Rightarrow> jsstring \<Rightarrow> entropy \<Rightarrow> (exn + EncryptedData) \<times> entropy"
where
  "encryptData P data password rng =
     (let (saltBytes, rng1) = getRandomValues SALT_LENGTH rng;
          (ivBytes, rng2) = getRandomValues IV_LENGTH rng1;
          key = deriveKey P password saltBytes;
          encodedData = TextEncoder_encode P data;
          encryptedBytes = subtle_encrypt P ENCRYPTION_ALGORITHM ivBytes key encodedData
      in (case bytesToBase64 P encryptedBytes of
            Inl e \<Rightarrow> Inl e
          | Inr encrypted64 \<Rightarrow>
              (case bytesToBase64 P ivBytes of
                 Inl e \<Rightarrow> Inl e
               | Inr iv64 \<Rightarrow>
                   (case bytesToBase64 P saltBytes of
                      Inl e \<Rightarrow> Inl e
                    | Inr salt64 \<Rightarrow>
                        Inr \<lparr>encrypted = encrypted64, iv = iv64, salt = salt64\<rparr>)),
          rng2))"

definition encryptData_encrypted ::
  "('bk, 'k) platform \<Rightarrow> jsstring \<Rightarrow> jsstring \<Rightarrow> entropy \<Rightarrow> bytes"
where
  \<comment> \<open>the value of the local \<^verbatim>\<open>encrypted\<close> of \<^verbatim>\<open>encryptData\<close> after line 55\<close>
  "encryptData_encrypted P data password rng =
     (let (saltBytes, rng1) = getRandomValues SALT_LENGTH rng;
          (ivBytes, rng2) = getRandomValues IV_LENGTH rng1;
          key = deriveKey P password saltBytes;
          encodedData = TextEncoder_encode P data
      in subtle_encrypt P ENCRYPTION_ALGORITHM ivBytes key encodedData)"

definition decryptData_decode :: "EncryptedData \<Rightarrow> exn + bytes \<times> bytes \<times> bytes" where
  \<comment> \<open>lines 69-71: the three fields decoded, in the order salt, iv, encrypted\<close>
  "decryptData_decode encryptedData =
     (case base64ToBytes (salt encryptedData) of
        Inl e \<Rightarrow> Inl e
      | Inr saltBytes \<Rightarrow>
          (case base64ToBytes (iv encryptedData) of
             Inl e \<Rightarrow> Inl e
           | Inr ivBytes \<Rightarrow>
               (case base64ToBytes (encrypted encryptedData) of
                  Inl e \<Rightarrow> Inl e
                | Inr encryptedBytes \<Rightarrow> Inr (saltBytes, ivBytes, encryptedBytes))))"

definition decryptData_try ::
  "('bk, 'k) platform \<Rightarrow> EncryptedData \<Rightarrow> jsstring \<Rightarrow> entropy \<Rightarrow> (exn + jsstring) \<times> entropy"
where
  \<comment> \<open>lines 69-81: the body of the \<^verbatim>\<open>try\<close> block; line 73 passes the IV bytes to
      \<^verbatim>\<open>deriveKey\<close>, and the salt bytes of line 69 are not used again\<close>
  "decryptData_try P encryptedData password rng =
     (case decryptData_decode encryptedData of
        Inl e \<Rightarrow> (Inl e, rng)
      | Inr (saltBytes, ivBytes, encryptedBytes) \<Rightarrow>
          (let key = deriveKey P password ivBytes
           in case subtle_decrypt P ENCRYPTION_ALGORITHM ivBytes key encryptedBytes of
                None \<Rightarrow> (Inl OperationError, rng)
              | Some decrypted \<Rightarrow> (Inr (TextDecoder_decode P decrypted), rng)))"

definition decryptData ::
  "('bk, 'k) platform \<Rightarrow> EncryptedData \<Rightarrow> jsstring \<Rightarrow> entropy \<Rightarrow> (exn + jsstring) \<times> entropy"
where
  \<comment> \<open>lines 82-84: whatever the body throws is replaced by one error\<close>
  "decryptData P encryptedData password rng =
     (case decryptData_try P encryptedData password rng of
        (Inl error, rng1) \<Rightarrow> (Inl (Error ''Failed to decrypt data. Check your password.''), rng1)
      | (Inr plaintext, rng1) \<Rightarrow> (Inr plaintext, rng1))"

definition decryptData_key :: "('bk, 'k) platform \<Rightarrow> EncryptedData \<Rightarrow> jsstring \<Rightarrow> exn + 'k" where
  \<comment> \<open>the value of the local \<^verbatim>\<open>key\<close> of \<^verbatim>\<open>decryptData\<close> after line 73\<close>
  "decryptData_key P encryptedData password =
     (case decryptData_decode encryptedData of
        Inl e \<Rightarrow> Inl e
      | Inr (saltBytes, ivBytes, encryptedBytes) \<Rightarrow> Inr (deriveKey P password ivBytes))"

definition generateSecureId :: "entropy \<Rightarrow> jsstring \<times> entropy" where
  "generateSecureId rng =
     (let (array, rng1) = getRandomValues 16 rng
      in (concat (map (\<lambda>byte. padStart 2 (js ''0'') (toString16 (unat byte))) array), rng1))"

section \<open>\<^verbatim>\<open>api-keys.ts\<close>: the stored records\<close>

datatype provider = openai | anthropic | google | custom

record APIKeyMetadata =
  model :: "jsstring option"
  endpoint :: "jsstring option"
  organization :: "jsstring option"

record APIKey =
  id' :: jsstring
  name :: jsstring
  provider :: provider
  encryptedKey :: EncryptedData
  isActive :: bool
  createdAt :: jsstring
  lastUsed :: "jsstring option"
  usageCount :: nat
  metadata :: "APIKeyMetadata option"

record APIKeyFormData =
  formName :: jsstring
  formProvider :: provider
  apiKey :: jsstring
  formModel :: "jsstring option"
  formEndpoint :: "jsstring option"
  formOrganization :: "jsstring option"

section \<open>The \<^verbatim>\<open>useAPIKeys\<close> hook\<close>

text \<open>
  The state the hook's callbacks read and write: the signed-in user's id, the React state
  \<^verbatim>\<open>apiKeys\<close> and \<^verbatim>\<open>isLoading\<close>, the browser's \<^verbatim>\<open>localStorage\<close> (the JSON text of a
  key list is represented by the list itself), the toasts shown and the errors logged.
  \<^verbatim>\<open>new Date().toISOString()\<close> is the argument \<open>now\<close> of the callbacks, and
  \<^verbatim>\<open>localStorage.setItem\<close> is taken to succeed. The callbacks run on the hook state and the
  random generator.
\<close>

datatype toastVariant = Default | Destructive

record Toast =
  variant :: toastVariant
  title :: jsstring
  description :: jsstring

record HookState =
  user :: "jsstring option"
  apiKeys :: "APIKey list"
  isLoading :: bool
  localStorage :: "jsstring \<rightharpoonup> APIKey list"
  toasts :: "Toast list"
  console :: "(string \<times> exn) list"

definition STORAGE_KEY :: jsstring where
  "STORAGE_KEY = js ''gapalytics_api_keys''"

definition saveApiKeys :: "APIKey list \<Rightarrow> HookState \<Rightarrow> HookState" where
  "saveApiKeys keys st =
     (case user st of
        None \<Rightarrow> st
      | Some userId \<Rightarrow>
          st\<lparr>localStorage := (localStorage st)(STORAGE_KEY @ js ''_'' @ userId \<mapsto> keys),
             apiKeys := keys\<rparr>)"

datatype addResult = Success APIKey | Failure exn

definition addAPIKey ::
  "('bk, 'k) platform \<Rightarrow> APIKeyFormData \<Rightarrow> jsstring \<Rightarrow> jsstring \<Rightarrow> HookState \<times> entropy
    \<Rightarrow> addResult \<times> HookState \<times> entropy"
where
  "addAPIKey P formData password now = (\<lambda>(st, rng).
     (let st1 = st\<lparr>isLoading := True\<rparr>;
          (enc, rng1) = encryptData P (apiKey formData) password rng
      in case enc of
           Inl error \<Rightarrow>
             (Failure error,
              st1\<lparr>console := console st1 @ [(''Failed to add API key:'', error)],
                  toasts := toasts st1 @
                    [\<lparr>variant = Destructive, title = js ''Failed to Add API Key'',
                      description = js ''There was an error encrypting and storing your API key.''\<rparr>],
                  isLoading := False\<rparr>,
              rng1)
         | Inr encryptedKey' \<Rightarrow>
             (let (newId, rng2) = generateSecureId rng1;
                  newKey = \<lparr>id' = newId,
                            name = formName formData,
                            provider = formProvider formData,
                            encryptedKey = encryptedKey',
                            isActive = True,
                            createdAt = now,
                            lastUsed = None,
                            usageCount = 0,
                            metadata = Some \<lparr>model = formModel formData,
                                              endpoint = formEndpoint formData,
                                              organization = formOrganization formData\<rparr>\<rparr>;
                  updatedKeys = apiKeys st1 @ [newKey];
                  st2 = saveApiKeys updatedKeys st1;
                  st3 = st2\<lparr>toasts := toasts st2 @
                          [\<lparr>variant = Default, title = js ''API Key Added'',
                            description = formName formData
                              @ js '' has been successfully added and encrypted.''\<rparr>]\<rparr>
              in (Success newKey, st3\<lparr>isLoading := False\<rparr>, rng2))))"

definition decryptAPIKey_catch :: "exn \<Rightarrow> HookState \<Rightarrow> jsstring option \<times> HookState" where
  \<comment> \<open>lines 122-130: the \<^verbatim>\<open>catch\<close> block\<close>
  "decryptAPIKey_catch error st =
     (None,
      st\<lparr>console := console st @ [(''Failed to decrypt API key:'', error)],
         toasts := toasts st @
           [\<lparr>variant = Destructive, title = js ''Decryption Failed'',
             description = js ''Failed to decrypt API key. Check your password.''\<rparr>]\<rparr>)"

definition decryptAPIKey ::
  "('bk, 'k) platform \<Rightarrow> jsstring \<Rightarrow> jsstring \<Rightarrow> jsstring \<Rightarrow> HookState \<times> entropy
    \<Rightarrow> jsstring option \<times> HookState \<times> entropy"
where
  "decryptAPIKey P keyId password now = (\<lambda>(st, rng).
     (case find (\<lambda>k. id' k = keyId) (apiKeys st) of
        None \<Rightarrow>
          (let (result, st1) = decryptAPIKey_catch (Error ''API key not found'') st
           in (result, st1, rng))
      | Some key \<Rightarrow>
          (case decryptData P (encryptedKey key) password rng of
             (Inl error, rng1) \<Rightarrow>
               (let (result, st1) = decryptAPIKey_catch error st in (result, st1, rng1))
           | (Inr decryptedKey, rng1) \<Rightarrow>
               (let updatedKeys =
                      map (\<lambda>k. if id' k = keyId
                                then k\<lparr>lastUsed := Some now, usageCount := usageCount k + 1\<rparr>
                                else k)
                          (apiKeys st)
                in (Some decryptedKey, saveApiKeys updatedKeys st, rng1)))))"

section \<open>An instance of the platform for evaluation\<close>

text \<open>
  A small instance of the interface, on which the functions above can be run on concrete
  inputs. It is not a cipher: the derived key is the salt followed by the password bytes,
  and a ciphertext is the plaintext followed by the key, which decryption checks and
  removes. It keeps two properties of the real primitives: decrypting under the key that
  encrypted returns the plaintext, and the derived key depends on the salt, so that a
  ciphertext is rejected under a key derived from other bytes. Its engine accepts 125000
  arguments in a call.
\<close>

definition test_platform :: "(bytes, bytes) platform" where
  "test_platform =
     \<lparr>argumentLimit = 125000,
      TextEncoder_encode = map ucast,
      TextDecoder_decode = map ucast,
      subtle_importKey = (\<lambda>raw alg. raw),
      subtle_deriveKey = (\<lambda>params baseKey alg. pbkdf2_salt params @ baseKey),
      subtle_encrypt = (\<lambda>alg ivBytes key plain. plain @ key),
      subtle_decrypt = (\<lambda>alg ivBytes key cipher.
        if length key \<le> length cipher \<and> drop (length cipher - length key) cipher = key
        then Some (take (length cipher - length key) cipher) else None)\<rparr>"

definition test_rng :: entropy where
  "test_rng = (\<lambda>i. of_nat (3 + 5 * i))"

text \<open>
  With \<^const>\<open>test_rng\<close> the salt drawn is 3, 8, \<open>\<dots>\<close>, 78 and the IV is 83, 88, \<open>\<dots>\<close>, 138.
  \<open>test_encrypted\<close> is what \<^const>\<open>encryptData\<close> then returns for the plaintext
  \<^verbatim>\<open>sk-test\<close> and the password \<^verbatim>\<open>pw\<close>. \<open>test_encrypted_iv_key\<close> holds the same IV and salt
  with a ciphertext made under the key derived from the IV.
\<close>

definition test_encrypted :: EncryptedData where
  "test_encrypted =
     \<lparr>encrypted = js ''c2stdGVzdAMIDRIXHCEmKzA1Oj9ESU5wdw=='',
      iv = js ''U1hdYmdscXZ7gIWK'',
      salt = js ''AwgNEhccISYrMDU6P0RJTg==''\<rparr>"

definition test_encrypted_iv_key :: EncryptedData where
  "test_encrypted_iv_key =
     \<lparr>encrypted = js ''c2stdGVzdFNYXWJnbHF2e4CFinB3'',
      iv = js ''U1hdYmdscXZ7gIWK'',
      salt = js ''AwgNEhccISYrMDU6P0RJTg==''\<rparr>"

definition test_formData :: APIKeyFormData where
  "test_formData =
     \<lparr>formName = js ''sk-test'', formProvider = openai, apiKey = js ''sk-test'',
      formModel = None, formEndpoint = None, formOrganization = None\<rparr>"

definition test_now :: jsstring where
  "test_now = js ''2025-01-01T00:00:00.000Z''"

definition test_state :: HookState where
  "test_state =
     \<lparr>user = Some (js ''u1''), apiKeys = [], isLoading = False,
      localStorage = Map.empty, toasts = [], console = []\<rparr>"

definition test_newKey :: APIKey where
  "test_newKey =
     \<lparr>id' = js ''8f94999ea3a8adb2b7bcc1c6cbd0d5da'',
      name = js ''sk-test'',
      provider = openai,
      encryptedKey = test_encrypted,
      isActive = True,
      createdAt = test_now,
      lastUsed = None,
      usageCount = 0,
      metadata = Some \<lparr>model = None, endpoint = None, organization = None\<rparr>\<rparr>"

section \<open>Auxiliary definitions of the proofs\<close>

text \<open>The 6-bit groups that \<^const>\<open>base64_encode\<close> writes, and the number of padding characters.\<close>

fun encode_sextets :: "bytes \<Rightarrow> nat list" where
  "encode_sextets [] = []"
| "encode_sextets [a] = [unat a div 4, (unat a mod 4) * 16]"
| "encode_sextets [a, b] =
     [unat a div 4, (unat a mod 4) * 16 + unat b div 16, (unat b mod 16) * 4]"
| "encode_sextets (a # b # c # rest) =
     [unat a div 4, (unat a mod 4) * 16 + unat b div 16,
      (unat b mod 16) * 4 + unat c div 64, unat c mod 64] @ encode_sextets rest"

fun pad_count :: "bytes \<Rightarrow> nat" where
  "pad_count [] = 0"
| "pad_count [a] = 2"
| "pad_count [a, b] = 1"
| "pad_count (a # b # c # rest) = pad_count rest"

section \<open>Base64: decoding inverts encoding\<close>


lemma length_b64alphabet: "length b64alphabet = 64"
  by (simp add: b64alphabet_def js_def)

lemma distinct_b64alphabet: "distinct b64alphabet"
  by (simp add: b64alphabet_def js_def)

lemma b64pad_notin: "b64pad \<notin> set b64alphabet"
  by (simp add: b64alphabet_def js_def b64pad_def)

lemma ws_notin: "c \<in> set b64alphabet \<Longrightarrow> \<not> ascii_whitespace c"
  by (auto simp add: b64alphabet_def js_def ascii_whitespace_def)

lemma index_of_nth: "distinct xs \<Longrightarrow> i < length xs \<Longrightarrow> index_of (xs ! i) xs = Some i"
proof (induction xs arbitrary: i)
  case Nil
  then show ?case by simp
next
  case (Cons y ys)
  show ?case
  proof (cases i)
    case 0
    then show ?thesis by simp
  next
    case (Suc j)
    with Cons.prems have "ys ! j \<noteq> y" "j < length ys" by auto
    with Cons Suc show ?thesis by simp
  qed
qed

lemma b64index_b64char: "i < 64 \<Longrightarrow> b64index (b64char i) = Some i"
  by (simp add: b64index_def b64char_def index_of_nth distinct_b64alphabet length_b64alphabet)

lemma b64char_in: "i < 64 \<Longrightarrow> b64char i \<in> set b64alphabet"
  by (simp add: b64char_def length_b64alphabet)


lemma unat_byte_lt: "unat (a :: byte) < 256"
  using unsigned_less [of a, where 'a = nat] by simp

lemma base64_encode_sextets:
  "base64_encode bs = map b64char (encode_sextets bs) @ replicate (pad_count bs) b64pad"
  by (induction bs rule: base64_encode.induct) (simp_all add: numeral_2_eq_2)

lemma sextet_bounds:
  fixes x y :: nat
  assumes "x < 256" and "y < 256"
  shows "x div 4 < 64" and "x mod 4 * 16 + y div 16 < 64" and "x mod 4 * 16 < 64"
    and "y mod 16 * 4 + x div 64 < 64" and "y mod 16 * 4 < 64" and "x mod 64 < 64"
proof -
  from assms have d: "x div 4 < 64" "y div 16 < 16" "x div 64 < 4" by simp_all
  have m: "x mod 4 < 4" "y mod 16 < 16" by simp_all
  show "x div 4 < 64" by (rule d)
  show "x mod 4 * 16 + y div 16 < 64" using d m by linarith
  show "x mod 4 * 16 < 64" using m by linarith
  show "y mod 16 * 4 + x div 64 < 64" using d m by linarith
  show "y mod 16 * 4 < 64" using m by linarith
  show "x mod 64 < 64" by simp
qed

lemma encode_sextets_bound: "list_all (\<lambda>s. s < 64) (encode_sextets bs)"
proof (induction bs rule: encode_sextets.induct)
  case (2 a)
  show ?case
    using sextet_bounds [OF unat_byte_lt [of a] unat_byte_lt [of a]] by simp
next
  case (3 a b)
  show ?case
    using sextet_bounds [OF unat_byte_lt [of a] unat_byte_lt [of b]]
      sextet_bounds [OF unat_byte_lt [of b] unat_byte_lt [of b]] by simp
next
  case (4 a b c rest)
  then show ?case
    using sextet_bounds [OF unat_byte_lt [of a] unat_byte_lt [of b]]
      sextet_bounds [OF unat_byte_lt [of c] unat_byte_lt [of b]] by simp
qed simp

lemma pad_count_le: "pad_count bs \<le> 2"
  by (induction bs rule: pad_count.induct) simp_all

lemma length_encode_sextets: "(length (encode_sextets bs) + pad_count bs) mod 4 = 0"
  by (induction bs rule: encode_sextets.induct) simp_all

lemma length_encode_sextets_not1: "length (encode_sextets bs) mod 4 \<noteq> 1"
  by (induction bs rule: encode_sextets.induct) simp_all

lemma sextet_arith1:
  fixes x y :: nat
  assumes "y < 256"
  shows "x div 4 * 4 + (x mod 4 * 16 + y div 16) div 16 = x"
proof -
  from assms have "y div 16 < 16" by simp
  then have "(x mod 4 * 16 + y div 16) div 16 = x mod 4" by simp
  then show ?thesis by simp
qed

lemma sextet_arith2:
  fixes x y z :: nat
  assumes "y < 256" and "z < 256"
  shows "(x mod 4 * 16 + y div 16) mod 16 * 16 + (y mod 16 * 4 + z div 64) div 4 = y"
proof -
  from assms have z: "z div 64 < 4" and y: "y div 16 < 16" by simp_all
  have 1: "(x mod 4 * 16 + y div 16) mod 16 = y div 16" using y by simp
  have 2: "(y mod 16 * 4 + z div 64) div 4 = y mod 16" using z by simp
  show ?thesis unfolding 1 2 by simp
qed

lemma sextet_arith3:
  fixes y z :: nat
  assumes "z < 256"
  shows "(y mod 16 * 4 + z div 64) mod 4 * 64 + z mod 64 = z"
proof -
  from assms have z: "z div 64 < 4" by simp
  have 1: "(y mod 16 * 4 + z div 64) mod 4 = z div 64" using z by simp
  show ?thesis unfolding 1 by simp
qed

lemma byte_eq1: "(of_nat (unat a div 4 * 4 + (unat a mod 4 * 16 + unat (b :: byte) div 16) div 16) :: byte) = a"
  using sextet_arith1 [OF unat_byte_lt [of b], of "unat a"] by simp

lemma byte_eq1': "(of_nat (unat a div 4 * 4 + (unat a mod 4 * 16) div 16) :: byte) = a"
  using sextet_arith1 [of 0 "unat a"] by simp

lemma byte_eq2:
  "(of_nat ((unat (a :: byte) mod 4 * 16 + unat b div 16) mod 16 * 16 + (unat b mod 16 * 4 + unat (c :: byte) div 64) div 4) :: byte) = b"
  using sextet_arith2 [OF unat_byte_lt [of b] unat_byte_lt [of c], of "unat a"] by simp

lemma byte_eq2':
  "(of_nat ((unat (a :: byte) mod 4 * 16 + unat b div 16) mod 16 * 16 + (unat b mod 16 * 4) div 4) :: byte) = b"
  using sextet_arith2 [OF unat_byte_lt [of b], of 0 "unat a"] by simp

lemma byte_eq3:
  "(of_nat ((unat (b :: byte) mod 16 * 4 + unat c div 64) mod 4 * 64 + unat c mod 64) :: byte) = c"
  using sextet_arith3 [OF unat_byte_lt [of c], of "unat b"] by simp

lemma base64_decode_encode_sextets: "base64_decode (encode_sextets bs) = bs"
proof (induction bs rule: encode_sextets.induct)
  case 1
  show ?case by simp
next
  case (2 a)
  show ?case
    by (simp only: encode_sextets.simps base64_decode.simps byte_eq1')
next
  case (3 a b)
  show ?case
    by (simp only: encode_sextets.simps base64_decode.simps byte_eq1 byte_eq2')
next
  case (4 a b c rest)
  then show ?case
    by (simp only: encode_sextets.simps base64_decode.simps append.simps
        byte_eq1 byte_eq2 byte_eq3)
qed


lemma b64char_props:
  assumes "i < 64"
  shows "b64char i \<noteq> b64pad" and "\<not> ascii_whitespace (b64char i)"
  using b64char_in [OF assms] b64pad_notin ws_notin by auto

lemma map_b64char_props:
  assumes "list_all (\<lambda>s. s < 64) sx"
  shows "filter (\<lambda>c. \<not> ascii_whitespace c) (map b64char sx) = map b64char sx"
    and "sx \<noteq> [] \<Longrightarrow> last (map b64char sx) \<noteq> b64pad"
    and "those (map b64index (map b64char sx)) = Some sx"
proof -
  show "filter (\<lambda>c. \<not> ascii_whitespace c) (map b64char sx) = map b64char sx"
    using assms by (induction sx) (simp_all add: b64char_props)
  show "last (map b64char sx) \<noteq> b64pad" if "sx \<noteq> []"
  proof -
    from that assms have "last sx < 64"
      by (simp add: list_all_iff)
    with that show ?thesis by (simp add: last_map b64char_props)
  qed
  show "those (map b64index (map b64char sx)) = Some sx"
    using assms by (induction sx) (simp_all add: b64index_b64char)
qed

lemma filter_ws_base64_encode:
  "filter (\<lambda>c. \<not> ascii_whitespace c) (base64_encode bs) = base64_encode bs"
proof -
  have "\<not> ascii_whitespace b64pad"
    by (simp add: ascii_whitespace_def b64pad_def)
  then have "filter (\<lambda>c. \<not> ascii_whitespace c) (replicate k b64pad) = replicate k b64pad" for k
    by simp
  then show ?thesis
    unfolding base64_encode_sextets filter_append
    by (simp only: map_b64char_props(1) [OF encode_sextets_bound])
qed

lemma strip_padding_sextets:
  assumes "list_all (\<lambda>s. s < 64) sx" and "k \<le> 2" and "(length sx + k) mod 4 = 0"
  shows "strip_padding (map b64char sx @ replicate k b64pad) = map b64char sx"
proof -
  have nopad: "last (map b64char sx) \<noteq> b64pad" if "sx \<noteq> []"
    using map_b64char_props(2) [OF assms(1) that] .
  from assms(2) consider "k = 0" | "k = 1" | "k = 2" by linarith
  then show ?thesis
  proof cases
    case 1
    with nopad show ?thesis by (cases "sx = []") (simp_all add: strip_padding_def)
  next
    case 2
    with nopad assms(3) show ?thesis
      by (cases "sx = []") (simp_all add: strip_padding_def)
  next
    case 3
    then have r: "replicate k b64pad = [b64pad, b64pad]" by (simp add: numeral_2_eq_2)
    have b: "butlast (map b64char sx @ [b64pad, b64pad]) = map b64char sx @ [b64pad]"
      by (simp add: butlast_append)
    from 3 assms(3) show ?thesis
      unfolding r strip_padding_def b by simp
  qed
qed

lemma strip_padding_base64_encode:
  "strip_padding (base64_encode bs) = map b64char (encode_sextets bs)"
  unfolding base64_encode_sextets
  by (rule strip_padding_sextets [OF encode_sextets_bound pad_count_le length_encode_sextets])

lemma atob_base64_encode: "atob (base64_encode bs) = Inr (fromCharCode bs)"
proof -
  have "those (map b64index (map b64char (encode_sextets bs))) = Some (encode_sextets bs)"
    by (rule map_b64char_props(3) [OF encode_sextets_bound])
  with length_encode_sextets_not1 [of bs] show ?thesis
    unfolding atob_def filter_ws_base64_encode strip_padding_base64_encode
    by (simp add: base64_decode_encode_sextets del: map_map)
qed

lemma ucast_byte_le: "unat (ucast (b :: byte) :: codeunit) \<le> 255"
proof -
  have "unat (ucast b :: codeunit) = unat b"
    by (simp add: unsigned_ucast_eq take_bit_nat_eq_self_iff
        order_less_trans [OF unsigned_less [of b, where 'a = nat]])
  then show ?thesis using unsigned_less [of b, where 'a = nat] by simp
qed

lemma ucast_ucast_byte: "(ucast (ucast (b :: byte) :: codeunit) :: byte) = b"
  by (rule ucast_up_ucast_id) (simp add: is_up)

lemma btoa_fromCharCode: "btoa (fromCharCode bs) = Inr (base64_encode bs)"
proof -
  have 1: "list_all (\<lambda>c. unat c \<le> 255) (fromCharCode bs)"
    by (simp add: fromCharCode_def list_all_iff ucast_byte_le)
  have 2: "map ucast (fromCharCode bs) = bs"
    by (simp add: fromCharCode_def ucast_ucast_byte comp_def)
  show ?thesis by (simp add: btoa_def 1 2)
qed

lemma Uint8Array_charCodes: "Uint8Array_from (charCodes (fromCharCode bs)) = bs"
  by (simp add: Uint8Array_from_def charCodes_def fromCharCode_def comp_def ucast_ucast_byte)

lemma bytesToBase64_eq:
  "bytesToBase64 P bs =
     (if length bs \<le> argumentLimit P then Inr (base64_encode bs) else Inl RangeError)"
  by (simp add: bytesToBase64_def spread_def btoa_fromCharCode)

lemma base64ToBytes_encode: "base64ToBytes (base64_encode bs) = Inr bs"
  by (simp add: base64ToBytes_def atob_base64_encode Uint8Array_charCodes)

lemma base64_encode_inject:
  assumes "base64_encode bs = base64_encode bs'"
  shows "bs = bs'"
proof -
  have "base64ToBytes (base64_encode bs) = base64ToBytes (base64_encode bs')"
    by (simp only: assms)
  then show ?thesis
    by (simp add: base64ToBytes_encode)
qed

subsection \<open>The generator\<close>

lemma getRandomValues_length: "length (fst (getRandomValues n rng)) = n"
  by (simp add: getRandomValues_def)

lemma map_shift_upt: "map (\<lambda>i. f (n + i)) [0..<m] = map f [n..<n + m]"
proof -
  have "map f (map (\<lambda>i. i + n) [0..<m]) = map f [n..<m + n]"
    by (simp only: map_add_upt)
  then show ?thesis by (simp add: comp_def add.commute)
qed

subsection \<open>\<^const>\<open>encryptData\<close> and \<^const>\<open>decryptData\<close> in closed form\<close>

lemma encryptData_encrypted_eq:
  "encryptData_encrypted P data password rng =
     subtle_encrypt P ENCRYPTION_ALGORITHM (map rng [16..<28])
       (deriveKey P password (map rng [0..<16])) (TextEncoder_encode P data)"
proof -
  have iv: "map (\<lambda>i. rng (16 + i)) [0..<12] = map rng [16..<28]"
    using map_shift_upt [of rng 16 12] by simp
  show ?thesis
    unfolding encryptData_encrypted_def getRandomValues_def SALT_LENGTH_def IV_LENGTH_def
      Let_def prod.case iv ..
qed

lemma encryptData_eq:
  "encryptData P data password rng =
     (if length (encryptData_encrypted P data password rng) \<le> argumentLimit P
         \<and> 16 \<le> argumentLimit P
      then Inr \<lparr>encrypted = base64_encode (encryptData_encrypted P data password rng),
                iv = base64_encode (map rng [16..<28]),
                salt = base64_encode (map rng [0..<16])\<rparr>
      else Inl RangeError,
      \<lambda>i. rng (28 + i))"
proof -
  have iv: "map (\<lambda>i. rng (16 + i)) [0..<12] = map rng [16..<28]"
    using map_shift_upt [of rng 16 12] by simp
  have rng2: "(\<lambda>i. rng (16 + (12 + i))) = (\<lambda>i. rng (28 + i))"
    by (simp add: add.assoc [symmetric])
  have "encryptData P data password rng =
     (case bytesToBase64 P (encryptData_encrypted P data password rng) of
        Inl e \<Rightarrow> Inl e
      | Inr encrypted64 \<Rightarrow>
          (case bytesToBase64 P (map rng [16..<28]) of
             Inl e \<Rightarrow> Inl e
           | Inr iv64 \<Rightarrow>
               (case bytesToBase64 P (map rng [0..<16]) of
                  Inl e \<Rightarrow> Inl e
                | Inr salt64 \<Rightarrow> Inr \<lparr>encrypted = encrypted64, iv = iv64, salt = salt64\<rparr>)),
      \<lambda>i. rng (28 + i))"
    unfolding encryptData_def encryptData_encrypted_eq getRandomValues_def SALT_LENGTH_def
      IV_LENGTH_def Let_def prod.case iv rng2 ..
  then show ?thesis
    by (simp add: bytesToBase64_eq)
qed

lemma encryptData_returned:
  assumes "fst (encryptData P data password rng) = Inr ed"
  shows "ed = \<lparr>encrypted = base64_encode (encryptData_encrypted P data password rng),
               iv = base64_encode (map rng [16..<28]),
               salt = base64_encode (map rng [0..<16])\<rparr>"
    and "length (encryptData_encrypted P data password rng) \<le> argumentLimit P"
    and "16 \<le> argumentLimit P"
  using assms unfolding encryptData_eq by (simp_all split: if_splits)

lemma encryptData_thrown:
  assumes "fst (encryptData P data password rng) = Inl e"
  shows "e = RangeError"
  using assms unfolding encryptData_eq by (simp split: if_splits)

lemma decryptData_decode_encoded:
  "decryptData_decode \<lparr>encrypted = base64_encode c, iv = base64_encode i, salt = base64_encode s\<rparr>
     = Inr (s, i, c)"
  by (simp add: decryptData_decode_def base64ToBytes_encode)

lemma decryptData_encoded:
  "decryptData P
     \<lparr>encrypted = base64_encode c, iv = base64_encode i, salt = base64_encode s\<rparr> password rng =
     (case subtle_decrypt P ENCRYPTION_ALGORITHM i (deriveKey P password i) c of
        None \<Rightarrow> Inl (Error ''Failed to decrypt data. Check your password.'')
      | Some decrypted \<Rightarrow> Inr (TextDecoder_decode P decrypted),
      rng)"
  by (simp add: decryptData_def decryptData_try_def decryptData_decode_encoded
      split: option.split)

lemma decryptData_generator: "snd (decryptData P encryptedData password rng) = rng"
  by (simp add: decryptData_def decryptData_try_def
      split: sum.split option.split prod.split)

lemma decryptData_outcome:
  "fst (decryptData P encryptedData password rng) =
     (case decryptData_decode encryptedData of
        Inl e \<Rightarrow> Inl (Error ''Failed to decrypt data. Check your password.'')
      | Inr (saltBytes, ivBytes, encryptedBytes) \<Rightarrow>
          (case subtle_decrypt P ENCRYPTION_ALGORITHM ivBytes (deriveKey P password ivBytes)
                  encryptedBytes of
             None \<Rightarrow> Inl (Error ''Failed to decrypt data. Check your password.'')
           | Some decrypted \<Rightarrow> Inr (TextDecoder_decode P decrypted)))"
  by (simp add: decryptData_def decryptData_try_def
      split: sum.split option.split prod.split)

subsection \<open>Hexadecimal rendering of a byte\<close>

lemma hexdigits_length: "length (js ''0123456789abcdef'') = 16"
  by (simp add: js_def)

lemma hexdigit_mem: "d < 16 \<Longrightarrow> hexdigit d \<in> set (js ''0123456789abcdef'')"
  unfolding hexdigit_def by (rule nth_mem) (simp add: hexdigits_length)

lemma hexdigit_0: "hexdigit 0 = 48"
  by (simp add: hexdigit_def js_def)

lemma toString16_digit: "n < 16 \<Longrightarrow> toString16 n = [hexdigit n]"
  by (simp add: toString16.simps)

lemma toString16_two_digits:
  assumes "16 \<le> n" and "n < 256"
  shows "toString16 n = [hexdigit (n div 16), hexdigit (n mod 16)]"
proof -
  from assms(2) have "n div 16 < 16" by simp
  then have "toString16 (n div 16) = [hexdigit (n div 16)]"
    by (rule toString16_digit)
  with assms(1) show ?thesis
    by (subst toString16.simps) simp
qed

lemma padStart_byte:
  assumes "n < 256"
  shows "padStart 2 (js ''0'') (toString16 n) = [hexdigit (n div 16), hexdigit (n mod 16)]"
proof (cases "n < 16")
  case True
  then show ?thesis
    by (simp add: toString16_digit padStart_def js_def hexdigit_0)
next
  case False
  with assms have "toString16 n = [hexdigit (n div 16), hexdigit (n mod 16)]"
    by (simp add: toString16_two_digits)
  then show ?thesis by (simp add: padStart_def)
qed

lemma generateSecureId_eq:
  "fst (generateSecureId rng) =
     concat (map (\<lambda>byte. [hexdigit (unat byte div 16), hexdigit (unat byte mod 16)])
       (fst (getRandomValues 16 rng)))"
  by (simp add: generateSecureId_def getRandomValues_def padStart_byte [OF unat_byte_lt]
      comp_def)

lemma length_concat_pairs: "length (concat (map (\<lambda>x. [f x, g x]) xs)) = 2 * length xs"
  by (induction xs) simp_all

lemma list_all_concat_pairs:
  "list_all Q (concat (map (\<lambda>x. [f x, g x]) xs)) = list_all (\<lambda>x. Q (f x) \<and> Q (g x)) xs"
  by (induction xs) simp_all

text \<open>
  C10. \<^const>\<open>generateSecureId\<close> returns 32 characters, all of them lowercase hexadecimal
  digits: each of the 16 random bytes is rendered as its high and its low hexadecimal digit.
\<close>

theorem generateSecureId_hex32:
  "length (fst (generateSecureId rng)) = 32
   \<and> list_all (\<lambda>c. c \<in> set (js ''0123456789abcdef'')) (fst (generateSecureId rng))
   \<and> fst (generateSecureId rng) =
       concat (map (\<lambda>byte. [hexdigit (unat byte div 16), hexdigit (unat byte mod 16)])
         (fst (getRandomValues 16 rng)))"
proof -
  have digits: "unat byte div 16 < 16" "unat byte mod 16 < 16" for byte :: byte
    using unat_byte_lt [of byte] by simp_all
  have "length (fst (generateSecureId rng)) = 32"
    unfolding generateSecureId_eq length_concat_pairs
    by (simp add: getRandomValues_length)
  moreover have "list_all (\<lambda>c. c \<in> set (js ''0123456789abcdef'')) (fst (generateSecureId rng))"
    unfolding generateSecureId_eq list_all_concat_pairs
    by (simp add: list_all_iff hexdigit_mem digits)
  ultimately show ?thesis
    using generateSecureId_eq by blast
qed



text \<open>
  C5, as stated, fails in two ways. The two maps are not mutually inverse: \<^const>\<open>atob\<close>
  accepts the unpadded text \<^verbatim>\<open>YQ\<close>, whose bytes encode to \<^verbatim>\<open>YQ==\<close>. And not every byte
  array can be encoded: beyond the argument limit of the engine the spread call of line 58
  throws.
\<close>

theorem base64_not_mutually_inverse:
  "base64ToBytes (js ''YQ'') = Inr [97]
   \<and> bytesToBase64 test_platform [97] = Inr (js ''YQ=='')
   \<and> js ''YQ=='' \<noteq> js ''YQ''
   \<and> bytesToBase64 test_platform (replicate 125001 0) = Inl RangeError"
proof (intro conjI)
  have "filter (\<lambda>c. \<not> ascii_whitespace c) (js ''YQ'') = js ''YQ''"
    by (simp add: js_def ascii_whitespace_def)
  moreover have "strip_padding (js ''YQ'') = js ''YQ''"
    by (simp add: strip_padding_def js_def)
  moreover have "those (map b64index (js ''YQ'')) = Some [24, 16]"
    by (simp add: b64index_def b64alphabet_def js_def)
  moreover have "length (js ''YQ'') mod 4 \<noteq> 1"
    by (simp add: js_def)
  ultimately have "atob (js ''YQ'') = Inr (fromCharCode [97])"
    by (simp add: atob_def)
  then show "base64ToBytes (js ''YQ'') = Inr [97]"
    by (simp add: base64ToBytes_def Uint8Array_charCodes)
  show "bytesToBase64 test_platform [97] = Inr (js ''YQ=='')"
    by (simp add: bytesToBase64_eq test_platform_def b64char_def b64alphabet_def js_def
        b64pad_def)
  show "js ''YQ=='' \<noteq> js ''YQ''"
    by (simp add: js_def)
  show "bytesToBase64 test_platform (replicate 125001 0) = Inl RangeError"
    by (simp add: bytesToBase64_eq test_platform_def)
qed

text \<open>
  C5, amended. Decoding inverts encoding: every byte array \<open>b\<close> with no more elements
  than the engine accepts as arguments is encoded without an error, and decoding the text
  gives \<open>b\<close> back. Hence the three fields of every value that \<^const>\<open>encryptData\<close>
  returns decode to the salt and the IV it drew and to the ciphertext it computed.
\<close>

theorem base64_decode_inverts_encode:
  "(length b \<le> argumentLimit P
      \<longrightarrow> (\<exists>s. bytesToBase64 P b = Inr s \<and> base64ToBytes s = Inr b))
   \<and> (fst (encryptData P data password rng) = Inr ed
      \<longrightarrow> decryptData_decode ed =
            Inr (fst (getRandomValues SALT_LENGTH rng),
                 fst (getRandomValues IV_LENGTH (snd (getRandomValues SALT_LENGTH rng))),
                 encryptData_encrypted P data password rng))"
proof (intro conjI impI)
  assume "length b \<le> argumentLimit P"
  then have "bytesToBase64 P b = Inr (base64_encode b)"
    by (simp add: bytesToBase64_eq)
  then show "\<exists>s. bytesToBase64 P b = Inr s \<and> base64ToBytes s = Inr b"
    using base64ToBytes_encode by blast
next
  assume returned: "fst (encryptData P data password rng) = Inr ed"
  have salt: "fst (getRandomValues SALT_LENGTH rng) = map rng [0..<16]"
    by (simp add: getRandomValues_def SALT_LENGTH_def)
  have iv: "fst (getRandomValues IV_LENGTH (snd (getRandomValues SALT_LENGTH rng)))
      = map rng [16..<28]"
    using map_shift_upt [of rng 16 12]
    by (simp add: getRandomValues_def SALT_LENGTH_def IV_LENGTH_def)
  show "decryptData_decode ed =
      Inr (fst (getRandomValues SALT_LENGTH rng),
           fst (getRandomValues IV_LENGTH (snd (getRandomValues SALT_LENGTH rng))),
           encryptData_encrypted P data password rng)"
    unfolding salt iv encryptData_returned(1) [OF returned]
    by (rule decryptData_decode_encoded)
qed

text \<open>
  C9. Every value that \<^const>\<open>encryptData\<close> returns has an \<open>iv\<close> field that decodes to 12
  bytes and a \<open>salt\<close> field that decodes to 16 bytes.
\<close>

theorem encryptData_iv_salt_lengths:
  assumes "fst (encryptData P data password rng) = Inr ed"
  shows "\<exists>ivBytes saltBytes.
     base64ToBytes (iv ed) = Inr ivBytes \<and> length ivBytes = 12
     \<and> base64ToBytes (salt ed) = Inr saltBytes \<and> length saltBytes = 16"
proof (intro exI conjI)
  note ed = encryptData_returned(1) [OF assms]
  show "base64ToBytes (iv ed) = Inr (map rng [16..<28])"
    unfolding ed by (simp only: EncryptedData.select_convs base64ToBytes_encode)
  show "base64ToBytes (salt ed) = Inr (map rng [0..<16])"
    unfolding ed by (simp only: EncryptedData.select_convs base64ToBytes_encode)
  show "length (map rng [16..<28]) = 12" by simp
  show "length (map rng [0..<16]) = 16" by simp
qed

text \<open>
  C4. For every plaintext and password, \<^const>\<open>encryptData\<close> draws 16 bytes of salt and
  then 12 bytes of IV from the random generator, derives a 256-bit AES-GCM key from the
  encoded password with PBKDF2 (SHA-256, 100000 iterations) over that salt, and encrypts
  the encoded plaintext with AES-GCM under that key and that IV. It returns the three
  byte arrays in base64 where the engine accepts the ciphertext as the arguments of one
  call, and throws a \<^verbatim>\<open>RangeError\<close> where it does not. The generator is left 28 bytes
  further, so the next draw returns other bytes of the sequence.
\<close>

theorem encryptData_algorithm:
  "(let saltBytes = map rng [0..<16];
        ivBytes = map rng [16..<28];
        key = subtle_deriveKey P
                \<lparr>kdf_name = PBKDF2, pbkdf2_salt = saltBytes, iterations = 100000,
                 hash = SHA_256\<rparr>
                (subtle_importKey P (TextEncoder_encode P password) PBKDF2)
                \<lparr>aes_name = AES_GCM, aes_length = 256\<rparr>;
        encryptedBytes = subtle_encrypt P AES_GCM ivBytes key (TextEncoder_encode P data)
    in encryptData_encrypted P data password rng = encryptedBytes
       \<and> encryptData P data password rng =
           (if length encryptedBytes \<le> argumentLimit P \<and> 16 \<le> argumentLimit P
            then Inr \<lparr>encrypted = base64_encode encryptedBytes,
                      iv = base64_encode ivBytes,
                      salt = base64_encode saltBytes\<rparr>
            else Inl RangeError,
            \<lambda>i. rng (28 + i)))"
  unfolding encryptData_eq
  by (simp add: encryptData_encrypted_eq deriveKey_def ENCRYPTION_ALGORITHM_def
      KEY_LENGTH_def Let_def)


subsection \<open>Evaluation on the test platform\<close>

lemma test_salt_bytes:
  "map test_rng [0..<16] = [3, 8, 13, 18, 23, 28, 33, 38, 43, 48, 53, 58, 63, 68, 73, 78]"
  by (simp add: test_rng_def upt_rec)

lemma test_iv_bytes:
  "map test_rng [16..<28] = [83, 88, 93, 98, 103, 108, 113, 118, 123, 128, 133, 138]"
  by (simp add: test_rng_def upt_rec)

lemma test_salt_encoded:
  "js ''AwgNEhccISYrMDU6P0RJTg=='' =
     base64_encode [3, 8, 13, 18, 23, 28, 33, 38, 43, 48, 53, 58, 63, 68, 73, 78]"
  by (simp add: b64char_def b64alphabet_def js_def b64pad_def)

lemma test_iv_encoded:
  "js ''U1hdYmdscXZ7gIWK'' =
     base64_encode [83, 88, 93, 98, 103, 108, 113, 118, 123, 128, 133, 138]"
  by (simp add: b64char_def b64alphabet_def js_def b64pad_def)

lemma test_cipher_encoded:
  "js ''c2stdGVzdAMIDRIXHCEmKzA1Oj9ESU5wdw=='' =
     base64_encode [115, 107, 45, 116, 101, 115, 116,
       3, 8, 13, 18, 23, 28, 33, 38, 43, 48, 53, 58, 63, 68, 73, 78, 112, 119]"
  by (simp add: b64char_def b64alphabet_def js_def b64pad_def)

lemma test_cipher_iv_key_encoded:
  "js ''c2stdGVzdFNYXWJnbHF2e4CFinB3'' =
     base64_encode [115, 107, 45, 116, 101, 115, 116,
       83, 88, 93, 98, 103, 108, 113, 118, 123, 128, 133, 138, 112, 119]"
  by (simp add: b64char_def b64alphabet_def js_def b64pad_def)

lemma test_encode_password: "TextEncoder_encode test_platform (js ''pw'') = [112, 119]"
  by (simp add: test_platform_def js_def)

lemma test_encode_data:
  "TextEncoder_encode test_platform (js ''sk-test'') = [115, 107, 45, 116, 101, 115, 116]"
  by (simp add: test_platform_def js_def)

lemma test_deriveKey:
  "deriveKey test_platform (js ''pw'') saltBytes = saltBytes @ [112, 119]"
  by (simp add: deriveKey_def test_encode_password)
     (simp add: test_platform_def)

lemma test_argumentLimit: "argumentLimit test_platform = 125000"
  by (simp add: test_platform_def)

lemma test_encrypted_bytes:
  "encryptData_encrypted test_platform (js ''sk-test'') (js ''pw'') test_rng =
     [115, 107, 45, 116, 101, 115, 116,
      3, 8, 13, 18, 23, 28, 33, 38, 43, 48, 53, 58, 63, 68, 73, 78, 112, 119]"
  unfolding encryptData_encrypted_eq test_salt_bytes test_iv_bytes test_deriveKey
    test_encode_data
  by (simp add: test_platform_def)

lemma test_encryptData:
  "fst (encryptData test_platform (js ''sk-test'') (js ''pw'') test_rng) = Inr test_encrypted"
  unfolding encryptData_eq fst_conv test_encrypted_def test_salt_encoded test_iv_encoded
    test_cipher_encoded test_salt_bytes test_iv_bytes test_encrypted_bytes
    test_argumentLimit
  by simp

lemma test_decryptData_rejects:
  "fst (decryptData test_platform test_encrypted (js ''pw'') rng) =
     Inl (Error ''Failed to decrypt data. Check your password.'')"
  unfolding test_encrypted_def test_salt_encoded test_iv_encoded test_cipher_encoded
    decryptData_encoded test_deriveKey
  by (simp add: test_platform_def)

lemma test_decryptData_iv_key:
  "fst (decryptData test_platform test_encrypted_iv_key (js ''pw'') rng) = Inr (js ''sk-test'')"
  unfolding test_encrypted_iv_key_def test_salt_encoded test_iv_encoded
    test_cipher_iv_key_encoded decryptData_encoded test_deriveKey
  by (simp add: test_platform_def js_def)

lemma decryptData_error_iff:
  "isl (fst (decryptData P encryptedData password rng)) \<longleftrightarrow>
     (case decryptData_decode encryptedData of
        Inl e \<Rightarrow> True
      | Inr (saltBytes, ivBytes, encryptedBytes) \<Rightarrow>
          subtle_decrypt P ENCRYPTION_ALGORITHM ivBytes (deriveKey P password ivBytes)
            encryptedBytes = None)"
  by (simp add: decryptData_outcome split: sum.split option.split prod.split)

lemma decryptData_error_message:
  "fst (decryptData P encryptedData password rng) = Inl e
   \<Longrightarrow> e = Error ''Failed to decrypt data. Check your password.''"
  by (simp add: decryptData_outcome split: sum.splits option.splits prod.splits)

lemma decryptData_key_encoded:
  "decryptData_key P
     \<lparr>encrypted = base64_encode c, iv = base64_encode i, salt = base64_encode s\<rparr> password
     = Inr (deriveKey P password i)"
  by (simp add: decryptData_key_def decryptData_decode_encoded)

theorem base64_decode_inverts_encode_witness:
  "(\<exists>s. bytesToBase64 test_platform [97] = Inr s \<and> base64ToBytes s = Inr [97])
   \<and> decryptData_decode test_encrypted =
       Inr (fst (getRandomValues SALT_LENGTH test_rng),
            fst (getRandomValues IV_LENGTH (snd (getRandomValues SALT_LENGTH test_rng))),
            encryptData_encrypted test_platform (js ''sk-test'') (js ''pw'') test_rng)"
proof -
  have small: "length [97 :: byte] \<le> argumentLimit test_platform"
    by (simp add: test_argumentLimit)
  from small test_encryptData
    base64_decode_inverts_encode [where b = "[97]" and P = test_platform
      and data = "js ''sk-test''" and password = "js ''pw''" and rng = test_rng
      and ed = test_encrypted]
  show ?thesis by blast
qed

theorem encryptData_iv_salt_lengths_witness:
  "fst (encryptData test_platform (js ''sk-test'') (js ''pw'') test_rng) = Inr test_encrypted
   \<and> (\<exists>ivBytes saltBytes.
        base64ToBytes (iv test_encrypted) = Inr ivBytes \<and> length ivBytes = 12
        \<and> base64ToBytes (salt test_encrypted) = Inr saltBytes \<and> length saltBytes = 16)"
  using test_encryptData encryptData_iv_salt_lengths [OF test_encryptData]
  by (rule conjI)

text \<open>
  C1. Encrypting and then decrypting with the same password does not give the plaintext
  back. On every platform, where \<^const>\<open>encryptData\<close> returns, \<^const>\<open>decryptData\<close> hands the
  ciphertext, which was made under the key derived from the salt (line 48), to the
  decryption primitive under the key derived from the IV (line 73). On the test platform,
  what \<^const>\<open>encryptData\<close> returns for the plaintext \<^verbatim>\<open>sk-test\<close> and the password
  \<^verbatim>\<open>pw\<close> is rejected by \<^const>\<open>decryptData\<close> under that same password.
\<close>

theorem encryptData_then_decryptData_rejected:
  "(case fst (encryptData P data password rng) of
      Inl e \<Rightarrow> e = RangeError
    | Inr ed \<Rightarrow>
        fst (decryptData P ed password rng') =
          (case subtle_decrypt P ENCRYPTION_ALGORITHM (map rng [16..<28])
                  (deriveKey P password (map rng [16..<28]))
                  (subtle_encrypt P ENCRYPTION_ALGORITHM (map rng [16..<28])
                     (deriveKey P password (map rng [0..<16]))
                     (TextEncoder_encode P data)) of
             None \<Rightarrow> Inl (Error ''Failed to decrypt data. Check your password.'')
           | Some decrypted \<Rightarrow> Inr (TextDecoder_decode P decrypted)))
   \<and> fst (encryptData test_platform (js ''sk-test'') (js ''pw'') test_rng) = Inr test_encrypted
   \<and> fst (decryptData test_platform test_encrypted (js ''pw'') rng') =
       Inl (Error ''Failed to decrypt data. Check your password.'')"
proof (intro conjI)
  show "case fst (encryptData P data password rng) of
      Inl e \<Rightarrow> e = RangeError
    | Inr ed \<Rightarrow>
        fst (decryptData P ed password rng') =
          (case subtle_decrypt P ENCRYPTION_ALGORITHM (map rng [16..<28])
                  (deriveKey P password (map rng [16..<28]))
                  (subtle_encrypt P ENCRYPTION_ALGORITHM (map rng [16..<28])
                     (deriveKey P password (map rng [0..<16]))
                     (TextEncoder_encode P data)) of
             None \<Rightarrow> Inl (Error ''Failed to decrypt data. Check your password.'')
           | Some decrypted \<Rightarrow> Inr (TextDecoder_decode P decrypted))"
  proof (cases "fst (encryptData P data password rng)")
    case (Inl e)
    then show ?thesis by (simp add: encryptData_thrown)
  next
    case (Inr ed)
    show ?thesis
      unfolding Inr sum.case encryptData_returned(1) [OF Inr] decryptData_encoded fst_conv
        encryptData_encrypted_eq ..
  qed
  show "fst (encryptData test_platform (js ''sk-test'') (js ''pw'') test_rng) = Inr test_encrypted"
    by (rule test_encryptData)
  show "fst (decryptData test_platform test_encrypted (js ''pw'') rng') =
       Inl (Error ''Failed to decrypt data. Check your password.'')"
    by (rule test_decryptData_rejects)
qed


text \<open>
  C2. The key that \<^const>\<open>decryptData\<close> derives is \<open>deriveKey password iv\<close>, whatever the
  salt field holds; at the test input it differs from the key derived from the decoded
  salt.
\<close>

theorem decryptData_key_is_derived_from_iv:
  "decryptData_key P
     \<lparr>encrypted = base64_encode c, iv = base64_encode i, salt = base64_encode s\<rparr> password
     = Inr (deriveKey P password i)
   \<and> decryptData_decode test_encrypted =
       Inr ([3, 8, 13, 18, 23, 28, 33, 38, 43, 48, 53, 58, 63, 68, 73, 78],
            [83, 88, 93, 98, 103, 108, 113, 118, 123, 128, 133, 138],
            [115, 107, 45, 116, 101, 115, 116,
             3, 8, 13, 18, 23, 28, 33, 38, 43, 48, 53, 58, 63, 68, 73, 78, 112, 119])
   \<and> decryptData_key test_platform test_encrypted (js ''pw'') =
       Inr (deriveKey test_platform (js ''pw'')
              [83, 88, 93, 98, 103, 108, 113, 118, 123, 128, 133, 138])
   \<and> deriveKey test_platform (js ''pw'')
         [83, 88, 93, 98, 103, 108, 113, 118, 123, 128, 133, 138]
       \<noteq> deriveKey test_platform (js ''pw'')
           [3, 8, 13, 18, 23, 28, 33, 38, 43, 48, 53, 58, 63, 68, 73, 78]"
proof (intro conjI)
  show "decryptData_key P
     \<lparr>encrypted = base64_encode c, iv = base64_encode i, salt = base64_encode s\<rparr> password
     = Inr (deriveKey P password i)"
    by (rule decryptData_key_encoded)
  show "decryptData_decode test_encrypted =
       Inr ([3, 8, 13, 18, 23, 28, 33, 38, 43, 48, 53, 58, 63, 68, 73, 78],
            [83, 88, 93, 98, 103, 108, 113, 118, 123, 128, 133, 138],
            [115, 107, 45, 116, 101, 115, 116,
             3, 8, 13, 18, 23, 28, 33, 38, 43, 48, 53, 58, 63, 68, 73, 78, 112, 119])"
    unfolding test_encrypted_def test_salt_encoded test_iv_encoded test_cipher_encoded
    by (rule decryptData_decode_encoded)
  show "decryptData_key test_platform test_encrypted (js ''pw'') =
       Inr (deriveKey test_platform (js ''pw'')
              [83, 88, 93, 98, 103, 108, 113, 118, 123, 128, 133, 138])"
    unfolding test_encrypted_def test_salt_encoded test_iv_encoded test_cipher_encoded
    by (rule decryptData_key_encoded)
  show "deriveKey test_platform (js ''pw'')
         [83, 88, 93, 98, 103, 108, 113, 118, 123, 128, 133, 138]
       \<noteq> deriveKey test_platform (js ''pw'')
           [3, 8, 13, 18, 23, 28, 33, 38, 43, 48, 53, 58, 63, 68, 73, 78]"
    unfolding test_deriveKey by simp
qed

text \<open>
  C3. \<^const>\<open>decryptData\<close> never uses the decoded salt, so a changed salt field is not
  detected: two inputs that differ in the salt only have the same outcome. At the test
  input whose ciphertext was made under the key derived from the IV, the plaintext is
  returned with the original salt and with another one.
\<close>

theorem decryptData_ignores_salt:
  "fst (decryptData P
      \<lparr>encrypted = base64_encode c, iv = base64_encode i, salt = base64_encode s\<rparr>
      password rng)
     = fst (decryptData P
         \<lparr>encrypted = base64_encode c, iv = base64_encode i, salt = base64_encode s'\<rparr>
         password rng)
   \<and> fst (decryptData test_platform test_encrypted_iv_key (js ''pw'') rng)
       = Inr (js ''sk-test'')
   \<and> fst (decryptData test_platform
         (test_encrypted_iv_key\<lparr>salt := js ''AQgPFh0kKzI5QEdOVVxjag==''\<rparr>) (js ''pw'') rng)
       = Inr (js ''sk-test'')"
proof (intro conjI)
  show "fst (decryptData P
      \<lparr>encrypted = base64_encode c, iv = base64_encode i, salt = base64_encode s\<rparr>
      password rng)
     = fst (decryptData P
         \<lparr>encrypted = base64_encode c, iv = base64_encode i, salt = base64_encode s'\<rparr>
         password rng)"
    by (simp only: decryptData_encoded)
  show "fst (decryptData test_platform test_encrypted_iv_key (js ''pw'') rng)
      = Inr (js ''sk-test'')"
    by (rule test_decryptData_iv_key)
  have other: "js ''AQgPFh0kKzI5QEdOVVxjag=='' =
      base64_encode [1, 8, 15, 22, 29, 36, 43, 50, 57, 64, 71, 78, 85, 92, 99, 106]"
    by (simp add: b64char_def b64alphabet_def js_def b64pad_def)
  show "fst (decryptData test_platform
         (test_encrypted_iv_key\<lparr>salt := js ''AQgPFh0kKzI5QEdOVVxjag==''\<rparr>) (js ''pw'') rng)
       = Inr (js ''sk-test'')"
    unfolding test_encrypted_iv_key_def EncryptedData.update_convs other test_iv_encoded
      test_cipher_iv_key_encoded decryptData_encoded test_deriveKey
    by (simp add: test_platform_def js_def)
qed

lemma test_encryptData_zero_generator:
  "fst (encryptData test_platform (js ''sk-test'') (js ''pw'') (\<lambda>i. 0)) \<noteq> Inr test_encrypted"
proof
  assume "fst (encryptData test_platform (js ''sk-test'') (js ''pw'') (\<lambda>i. 0)) = Inr test_encrypted"
  from encryptData_returned(1) [OF this]
  have "salt test_encrypted =
      salt \<lparr>encrypted = base64_encode
                (encryptData_encrypted test_platform (js ''sk-test'') (js ''pw'') (\<lambda>i. 0)),
              iv = base64_encode (map (\<lambda>i. 0) [16..<28]),
              salt = base64_encode (map (\<lambda>i. 0) [0..<16])\<rparr>"
    by (rule arg_cong)
  then have "salt test_encrypted = base64_encode (map (\<lambda>i. 0) [0..<16])"
    by (simp only: EncryptedData.select_convs)
  then have "base64_encode [3, 8, 13, 18, 23, 28, 33, 38, 43, 48, 53, 58, 63, 68, 73, 78]
      = base64_encode (map (\<lambda>i. 0) [0..<16])"
    by (simp add: test_encrypted_def test_salt_encoded)
  then have "[3, 8, 13, 18, 23, 28, 33, 38, 43, 48, 53, 58, 63, 68, 73, 78]
      = map (\<lambda>i. 0 :: byte) [0..<16]"
    by (rule base64_encode_inject)
  then show False
    by (simp add: upt_rec)
qed

text \<open>
  C7. The outcome of \<^const>\<open>decryptData\<close> depends on its two arguments only. The random
  generator is the one ambient input that the functions of the module can read, and
  \<^const>\<open>decryptData\<close> does not read it: two runs on the same arguments give the same
  decrypted string or the same error whatever the generator holds, and the run leaves the
  generator as it found it. \<^const>\<open>encryptData\<close> has neither property: at the test input
  the generator decides what it returns.
\<close>

theorem decryptData_deterministic:
  "fst (decryptData P encryptedData password rng1) =
     fst (decryptData P encryptedData password rng2)
   \<and> snd (decryptData P encryptedData password rng1) = rng1
   \<and> fst (encryptData test_platform (js ''sk-test'') (js ''pw'') test_rng)
       \<noteq> fst (encryptData test_platform (js ''sk-test'') (js ''pw'') (\<lambda>i. 0))"
proof (intro conjI)
  show "fst (decryptData P encryptedData password rng1) =
     fst (decryptData P encryptedData password rng2)"
    by (simp only: decryptData_outcome)
  show "snd (decryptData P encryptedData password rng1) = rng1"
    by (rule decryptData_generator)
  show "fst (encryptData test_platform (js ''sk-test'') (js ''pw'') test_rng)
       \<noteq> fst (encryptData test_platform (js ''sk-test'') (js ''pw'') (\<lambda>i. 0))"
    using test_encryptData test_encryptData_zero_generator by simp
qed


subsection \<open>The hook's callbacks\<close>

lemma saveApiKeys_fields:
  "user (saveApiKeys keys st) = user st"
  "toasts (saveApiKeys keys st) = toasts st"
  "apiKeys (saveApiKeys keys st) = (case user st of None \<Rightarrow> apiKeys st | Some userId \<Rightarrow> keys)"
  "localStorage (saveApiKeys keys st) =
     (case user st of
        None \<Rightarrow> localStorage st
      | Some userId \<Rightarrow> (localStorage st)(STORAGE_KEY @ js ''_'' @ userId \<mapsto> keys))"
  by (simp_all add: saveApiKeys_def split: option.split)

lemma decryptAPIKey_catch_fields:
  "fst (decryptAPIKey_catch error st) = None"
  "apiKeys (snd (decryptAPIKey_catch error st)) = apiKeys st"
  "localStorage (snd (decryptAPIKey_catch error st)) = localStorage st"
  "user (snd (decryptAPIKey_catch error st)) = user st"
  by (simp_all add: decryptAPIKey_catch_def)

lemma decryptData_pair:
  "decryptData P encryptedData password rng =
     (fst (decryptData P encryptedData password rng), rng)"
  using decryptData_generator [of P encryptedData password rng]
  by (simp add: prod_eq_iff)

lemma decryptAPIKey_not_found:
  assumes "find (\<lambda>k. id' k = keyId) (apiKeys st) = None"
  shows "decryptAPIKey P keyId password now (st, rng) =
     (None, snd (decryptAPIKey_catch (Error ''API key not found'') st), rng)"
  using assms by (simp add: decryptAPIKey_def decryptAPIKey_catch_def)

lemma decryptAPIKey_rejected:
  assumes "find (\<lambda>k. id' k = keyId) (apiKeys st) = Some key"
    and "fst (decryptData P (encryptedKey key) password rng) = Inl error"
  shows "decryptAPIKey P keyId password now (st, rng) =
     (None, snd (decryptAPIKey_catch error st), rng)"
proof -
  from assms(2) have "decryptData P (encryptedKey key) password rng = (Inl error, rng)"
    using decryptData_pair [of P "encryptedKey key" password rng] by simp
  with assms(1) show ?thesis
    by (simp add: decryptAPIKey_def decryptAPIKey_catch_def)
qed

lemma decryptAPIKey_success:
  assumes "find (\<lambda>k. id' k = keyId) (apiKeys st) = Some key"
    and "fst (decryptData P (encryptedKey key) password rng) = Inr decryptedKey"
  shows "decryptAPIKey P keyId password now (st, rng) =
     (Some decryptedKey,
      saveApiKeys
        (map (\<lambda>k. if id' k = keyId
                   then k\<lparr>lastUsed := Some now, usageCount := usageCount k + 1\<rparr> else k)
           (apiKeys st)) st,
      rng)"
proof -
  from assms(2) have "decryptData P (encryptedKey key) password rng = (Inr decryptedKey, rng)"
    using decryptData_pair [of P "encryptedKey key" password rng] by simp
  with assms(1) show ?thesis
    by (simp add: decryptAPIKey_def)
qed

text \<open>
  C8. When the key id is not among the stored keys, or \<^const>\<open>decryptData\<close> throws for the
  key found, \<^const>\<open>decryptAPIKey\<close> returns \<open>null\<close> and leaves the key list and the
  local storage as they were; conversely, where it changed either of them it returned
  the decrypted key.
\<close>

theorem decryptAPIKey_failure_keeps_keys:
  "((case find (\<lambda>k. id' k = keyId) (apiKeys st) of
       None \<Rightarrow> True
     | Some key \<Rightarrow> isl (fst (decryptData P (encryptedKey key) password rng)))
    \<longrightarrow> fst (decryptAPIKey P keyId password now (st, rng)) = None
        \<and> apiKeys (fst (snd (decryptAPIKey P keyId password now (st, rng)))) = apiKeys st
        \<and> localStorage (fst (snd (decryptAPIKey P keyId password now (st, rng))))
            = localStorage st)
   \<and> (apiKeys (fst (snd (decryptAPIKey P keyId password now (st, rng)))) \<noteq> apiKeys st
        \<or> localStorage (fst (snd (decryptAPIKey P keyId password now (st, rng))))
            \<noteq> localStorage st
       \<longrightarrow> (\<exists>key decryptedKey.
              find (\<lambda>k. id' k = keyId) (apiKeys st) = Some key
              \<and> fst (decryptData P (encryptedKey key) password rng) = Inr decryptedKey
              \<and> fst (decryptAPIKey P keyId password now (st, rng)) = Some decryptedKey))"
proof (cases "find (\<lambda>k. id' k = keyId) (apiKeys st)")
  case None
  show ?thesis
    unfolding decryptAPIKey_not_found [OF None]
    by (simp add: None decryptAPIKey_catch_fields)
next
  case (Some key)
  show ?thesis
  proof (cases "fst (decryptData P (encryptedKey key) password rng)")
    case (Inl error)
    show ?thesis
      unfolding decryptAPIKey_rejected [OF Some Inl]
      by (simp add: Some Inl decryptAPIKey_catch_fields)
  next
    case (Inr decryptedKey)
    show ?thesis
      unfolding decryptAPIKey_success [OF Some Inr]
      by (simp add: Some Inr)
  qed
qed

theorem decryptAPIKey_failure_keeps_keys_witness:
  "fst (decryptAPIKey test_platform (js ''missing'') (js ''pw'') test_now
          (test_state\<lparr>apiKeys := [test_newKey]\<rparr>, test_rng)) = None
   \<and> apiKeys (fst (snd (decryptAPIKey test_platform (js ''missing'') (js ''pw'') test_now
          (test_state\<lparr>apiKeys := [test_newKey]\<rparr>, test_rng)))) = [test_newKey]
   \<and> fst (decryptAPIKey test_platform (id' test_newKey) (js ''pw'') test_now
          (test_state\<lparr>apiKeys := [test_newKey]\<rparr>, test_rng)) = None
   \<and> apiKeys (fst (snd (decryptAPIKey test_platform (id' test_newKey) (js ''pw'') test_now
          (test_state\<lparr>apiKeys := [test_newKey]\<rparr>, test_rng)))) = [test_newKey]
   \<and> fst (decryptAPIKey test_platform (id' test_newKey) (js ''pw'') test_now
          (test_state\<lparr>apiKeys := [test_newKey\<lparr>encryptedKey := test_encrypted_iv_key\<rparr>]\<rparr>,
           test_rng))
       = Some (js ''sk-test'')"
proof -
  let ?st = "test_state\<lparr>apiKeys := [test_newKey]\<rparr>"
  let ?k = "test_newKey\<lparr>encryptedKey := test_encrypted_iv_key\<rparr>"
  let ?st' = "test_state\<lparr>apiKeys := [?k]\<rparr>"
  have missing: "id' test_newKey \<noteq> js ''missing''"
    by (simp add: test_newKey_def js_def)
  have h1: "case find (\<lambda>k. id' k = js ''missing'') (apiKeys ?st) of
              None \<Rightarrow> True
            | Some key \<Rightarrow>
                isl (fst (decryptData test_platform (encryptedKey key) (js ''pw'') test_rng))"
    using missing by simp
  have enc: "encryptedKey test_newKey = test_encrypted"
    by (simp add: test_newKey_def)
  have h2: "case find (\<lambda>k. id' k = id' test_newKey) (apiKeys ?st) of
              None \<Rightarrow> True
            | Some key \<Rightarrow>
                isl (fst (decryptData test_platform (encryptedKey key) (js ''pw'') test_rng))"
    by (simp add: enc test_decryptData_rejects)
  have found: "find (\<lambda>k. id' k = id' test_newKey) (apiKeys ?st') = Some ?k"
    by simp
  have dec: "fst (decryptData test_platform (encryptedKey ?k) (js ''pw'') test_rng)
      = Inr (js ''sk-test'')"
    by (simp add: test_decryptData_iv_key)
  have "apiKeys (fst (snd (decryptAPIKey test_platform (id' test_newKey) (js ''pw'') test_now
          (?st', test_rng)))) \<noteq> apiKeys ?st'"
    unfolding decryptAPIKey_success [OF found dec]
    by (simp add: saveApiKeys_fields test_state_def test_newKey_def)
  with decryptAPIKey_failure_keeps_keys
    [where keyId = "id' test_newKey" and st = ?st' and P = test_platform
      and password = "js ''pw''" and now = test_now and rng = test_rng]
  have h3: "fst (decryptAPIKey test_platform (id' test_newKey) (js ''pw'') test_now
      (?st', test_rng)) = Some (js ''sk-test'')"
    using found dec by auto
  from h1 decryptAPIKey_failure_keeps_keys
    [where keyId = "js ''missing''" and st = ?st and P = test_platform
      and password = "js ''pw''" and now = test_now and rng = test_rng]
  have r1: "fst (decryptAPIKey test_platform (js ''missing'') (js ''pw'') test_now
      (?st, test_rng)) = None"
    "apiKeys (fst (snd (decryptAPIKey test_platform (js ''missing'') (js ''pw'') test_now
      (?st, test_rng)))) = [test_newKey]"
    by simp_all
  from h2 decryptAPIKey_failure_keeps_keys
    [where keyId = "id' test_newKey" and st = ?st and P = test_platform
      and password = "js ''pw''" and now = test_now and rng = test_rng]
  have r2: "fst (decryptAPIKey test_platform (id' test_newKey) (js ''pw'') test_now
      (?st, test_rng)) = None"
    "apiKeys (fst (snd (decryptAPIKey test_platform (id' test_newKey) (js ''pw'') test_now
      (?st, test_rng)))) = [test_newKey]"
    by simp_all
  from r1 r2 h3 show ?thesis by (intro conjI)
qed


lemma generateSecureId_snd: "snd (generateSecureId rng) = (\<lambda>i. rng (16 + i))"
  by (simp add: generateSecureId_def getRandomValues_def)

lemma encryptData_generator: "snd (encryptData P data password rng) = (\<lambda>i. rng (28 + i))"
  by (simp add: encryptData_eq)

lemma addAPIKey_thrown:
  assumes "fst (encryptData P (apiKey formData) password rng) = Inl error"
  shows "fst (addAPIKey P formData password now (st, rng)) = Failure error"
proof -
  from assms have "encryptData P (apiKey formData) password rng = (Inl error, \<lambda>i. rng (28 + i))"
    using encryptData_generator [of P "apiKey formData" password rng]
    by (simp add: prod_eq_iff)
  then show ?thesis
    by (simp add: addAPIKey_def)
qed

lemma addAPIKey_returned:
  assumes "fst (encryptData P (apiKey formData) password rng) = Inr ed"
  shows "addAPIKey P formData password now (st, rng) =
     (let newKey = \<lparr>id' = fst (generateSecureId (\<lambda>i. rng (28 + i))),
                     name = formName formData,
                     provider = formProvider formData,
                     encryptedKey = ed,
                     isActive = True,
                     createdAt = now,
                     lastUsed = None,
                     usageCount = 0,
                     metadata = Some \<lparr>model = formModel formData,
                                       endpoint = formEndpoint formData,
                                       organization = formOrganization formData\<rparr>\<rparr>;
          st2 = saveApiKeys (apiKeys st @ [newKey]) (st\<lparr>isLoading := True\<rparr>)
      in (Success newKey,
          st2\<lparr>toasts := toasts st2 @
                [\<lparr>variant = Default, title = js ''API Key Added'',
                  description = formName formData
                    @ js '' has been successfully added and encrypted.''\<rparr>],
              isLoading := False\<rparr>,
          snd (generateSecureId (\<lambda>i. rng (28 + i)))))"
proof -
  from assms have "encryptData P (apiKey formData) password rng = (Inr ed, \<lambda>i. rng (28 + i))"
    using encryptData_generator [of P "apiKey formData" password rng]
    by (simp add: prod_eq_iff)
  then show ?thesis
    by (simp add: addAPIKey_def Let_def case_prod_beta)
qed

lemma addAPIKey_Success_record:
  assumes "addAPIKey P formData password now (st, rng) = (Success k, st', rng')"
  shows "fst (encryptData P (apiKey formData) password rng) = Inr (encryptedKey k)"
    and "k = \<lparr>id' = fst (generateSecureId (\<lambda>i. rng (28 + i))),
              name = formName formData,
              provider = formProvider formData,
              encryptedKey = encryptedKey k,
              isActive = True,
              createdAt = now,
              lastUsed = None,
              usageCount = 0,
              metadata = Some \<lparr>model = formModel formData,
                                endpoint = formEndpoint formData,
                                organization = formOrganization formData\<rparr>\<rparr>"
proof -
  obtain ed where ed: "fst (encryptData P (apiKey formData) password rng) = Inr ed"
  proof (cases "fst (encryptData P (apiKey formData) password rng)")
    case (Inl error)
    from addAPIKey_thrown [OF Inl, of now st] assms show ?thesis by simp
  next
    case (Inr ed)
    then show ?thesis by (rule that)
  qed
  from assms have k: "k = \<lparr>id' = fst (generateSecureId (\<lambda>i. rng (28 + i))),
              name = formName formData,
              provider = formProvider formData,
              encryptedKey = ed,
              isActive = True,
              createdAt = now,
              lastUsed = None,
              usageCount = 0,
              metadata = Some \<lparr>model = formModel formData,
                                endpoint = formEndpoint formData,
                                organization = formOrganization formData\<rparr>\<rparr>"
    unfolding addAPIKey_returned [OF ed] Let_def by simp
  then have "encryptedKey k = ed" by simp
  with ed k show "fst (encryptData P (apiKey formData) password rng) = Inr (encryptedKey k)"
    and "k = \<lparr>id' = fst (generateSecureId (\<lambda>i. rng (28 + i))),
              name = formName formData,
              provider = formProvider formData,
              encryptedKey = encryptedKey k,
              isActive = True,
              createdAt = now,
              lastUsed = None,
              usageCount = 0,
              metadata = Some \<lparr>model = formModel formData,
                                endpoint = formEndpoint formData,
                                organization = formOrganization formData\<rparr>\<rparr>"
    by simp_all
qed

lemma addAPIKey_Success_state:
  assumes "addAPIKey P formData password now (st, rng) = (Success k, st', rng')"
  shows "case user st of
          None \<Rightarrow> apiKeys st' = apiKeys st \<and> localStorage st' = localStorage st
        | Some userId \<Rightarrow>
            apiKeys st' = apiKeys st @ [k]
            \<and> localStorage st' =
                (localStorage st)(STORAGE_KEY @ js ''_'' @ userId \<mapsto> apiKeys st @ [k])"
proof -
  note ed = addAPIKey_Success_record(1) [OF assms]
  from assms show ?thesis
    unfolding addAPIKey_returned [OF ed] Let_def
    by (auto simp add: saveApiKeys_fields split: option.split)
qed

text \<open>
  C6. When \<^const>\<open>addAPIKey\<close> succeeds, the record it appends to the stored list has as its
  \<open>encryptedKey\<close> what \<^const>\<open>encryptData\<close> returned for the form's \<open>apiKey\<close> and the
  password, and the plaintext goes into no field of the record: the id comes from the
  generator, \<open>name\<close>, \<open>provider\<close> and the metadata are the form's fields of the same
  names, the rest is constant or the current time, so that a form with any other
  \<open>apiKey\<close> gives the same record but for \<open>encryptedKey\<close>. With a user signed in the
  record is appended to the key list and the list is written to the local storage; with
  none, nothing is stored.
\<close>

theorem addAPIKey_stores_encrypted_key:
  assumes "addAPIKey P formData password now (st, rng) = (Success k, st', rng')"
  shows "fst (encryptData P (apiKey formData) password rng) = Inr (encryptedKey k)
    \<and> id' k = fst (generateSecureId (\<lambda>i. rng (28 + i)))
    \<and> name k = formName formData
    \<and> provider k = formProvider formData
    \<and> isActive k
    \<and> createdAt k = now
    \<and> lastUsed k = None
    \<and> usageCount k = 0
    \<and> metadata k = Some \<lparr>model = formModel formData, endpoint = formEndpoint formData,
                          organization = formOrganization formData\<rparr>
    \<and> (case user st of
          None \<Rightarrow> apiKeys st' = apiKeys st \<and> localStorage st' = localStorage st
        | Some userId \<Rightarrow>
            apiKeys st' = apiKeys st @ [k]
            \<and> localStorage st' =
                (localStorage st)(STORAGE_KEY @ js ''_'' @ userId \<mapsto> apiKeys st @ [k]))
    \<and> (\<forall>otherKey k2 st2 rng2.
          addAPIKey P (formData\<lparr>apiKey := otherKey\<rparr>) password now (st, rng)
            = (Success k2, st2, rng2)
          \<longrightarrow> k2\<lparr>encryptedKey := encryptedKey k\<rparr> = k)"
proof -
  note rec = addAPIKey_Success_record [OF assms]
  have fields: "id' k = fst (generateSecureId (\<lambda>i. rng (28 + i)))"
    "name k = formName formData" "provider k = formProvider formData" "isActive k"
    "createdAt k = now" "lastUsed k = None" "usageCount k = 0"
    "metadata k = Some \<lparr>model = formModel formData, endpoint = formEndpoint formData,
                          organization = formOrganization formData\<rparr>"
    by (subst rec(2), simp)+
  have other: "k2\<lparr>encryptedKey := encryptedKey k\<rparr> = k"
    if "addAPIKey P (formData\<lparr>apiKey := otherKey\<rparr>) password now (st, rng)
          = (Success k2, st2, rng2)" for otherKey k2 st2 rng2
  proof -
    from addAPIKey_Success_record(2) [OF that]
    have "k2\<lparr>encryptedKey := encryptedKey k\<rparr> =
        \<lparr>id' = fst (generateSecureId (\<lambda>i. rng (28 + i))),
         name = formName (formData\<lparr>apiKey := otherKey\<rparr>),
         provider = formProvider (formData\<lparr>apiKey := otherKey\<rparr>),
         encryptedKey = encryptedKey k2,
         isActive = True,
         createdAt = now,
         lastUsed = None,
         usageCount = 0,
         metadata = Some \<lparr>model = formModel (formData\<lparr>apiKey := otherKey\<rparr>),
                           endpoint = formEndpoint (formData\<lparr>apiKey := otherKey\<rparr>),
                           organization = formOrganization (formData\<lparr>apiKey := otherKey\<rparr>)\<rparr>\<rparr>
        \<lparr>encryptedKey := encryptedKey k\<rparr>"
      by (rule arg_cong [where f = "\<lambda>r. r\<lparr>encryptedKey := encryptedKey k\<rparr>"])
    then have eq: "k2\<lparr>encryptedKey := encryptedKey k\<rparr> =
        \<lparr>id' = fst (generateSecureId (\<lambda>i. rng (28 + i))),
         name = formName formData,
         provider = formProvider formData,
         encryptedKey = encryptedKey k,
         isActive = True,
         createdAt = now,
         lastUsed = None,
         usageCount = 0,
         metadata = Some \<lparr>model = formModel formData,
                           endpoint = formEndpoint formData,
                           organization = formOrganization formData\<rparr>\<rparr>"
      by simp
    show ?thesis
      by (rule trans [OF eq rec(2) [symmetric]])
  qed
  from rec(1) fields addAPIKey_Success_state [OF assms] other show ?thesis
    by blast
qed


lemma test_generateSecureId:
  "fst (generateSecureId (\<lambda>i. test_rng (28 + i))) = js ''8f94999ea3a8adb2b7bcc1c6cbd0d5da''"
  unfolding generateSecureId_eq
  by (simp add: getRandomValues_def test_rng_def upt_rec hexdigit_def js_def)

lemma test_addAPIKey:
  "fst (addAPIKey test_platform test_formData (js ''pw'') test_now (test_state, test_rng))
     = Success test_newKey"
proof -
  have "apiKey test_formData = js ''sk-test''"
    by (simp add: test_formData_def)
  with test_encryptData
  have "fst (encryptData test_platform (apiKey test_formData) (js ''pw'') test_rng)
      = Inr test_encrypted"
    by simp
  from addAPIKey_returned [OF this] show ?thesis
    unfolding Let_def test_generateSecureId test_newKey_def
    by (simp add: test_formData_def)
qed

theorem addAPIKey_stores_encrypted_key_witness:
  "fst (encryptData test_platform (apiKey test_formData) (js ''pw'') test_rng)
     = Inr (encryptedKey test_newKey)
   \<and> apiKeys (fst (snd (addAPIKey test_platform test_formData (js ''pw'') test_now
        (test_state, test_rng)))) = [test_newKey]
   \<and> localStorage (fst (snd (addAPIKey test_platform test_formData (js ''pw'') test_now
        (test_state, test_rng)))) (js ''gapalytics_api_keys_u1'') = Some [test_newKey]
   \<and> (\<exists>k2. fst (addAPIKey test_platform (test_formData\<lparr>apiKey := js ''other''\<rparr>) (js ''pw'')
               test_now (test_state, test_rng)) = Success k2
          \<and> k2\<lparr>encryptedKey := encryptedKey test_newKey\<rparr> = test_newKey)"
proof -
  let ?r = "addAPIKey test_platform test_formData (js ''pw'') test_now (test_state, test_rng)"
  let ?r2 = "addAPIKey test_platform (test_formData\<lparr>apiKey := js ''other''\<rparr>) (js ''pw'')
      test_now (test_state, test_rng)"
  have h: "?r = (Success test_newKey, fst (snd ?r), snd (snd ?r))"
    using test_addAPIKey by (metis prod.collapse)
  have u: "user test_state = Some (js ''u1'')" "apiKeys test_state = []"
    "localStorage test_state = Map.empty"
    by (simp_all add: test_state_def)
  have key: "STORAGE_KEY @ js ''_'' @ js ''u1'' = js ''gapalytics_api_keys_u1''"
    by (simp add: STORAGE_KEY_def js_def)
  have "length (encryptData_encrypted test_platform (js ''other'') (js ''pw'') test_rng)
      \<le> argumentLimit test_platform"
    unfolding encryptData_encrypted_eq test_deriveKey
    by (simp add: test_platform_def js_def)
  then obtain ed2 where
    "fst (encryptData test_platform (apiKey (test_formData\<lparr>apiKey := js ''other''\<rparr>))
        (js ''pw'') test_rng) = Inr ed2"
    by (simp add: encryptData_eq test_argumentLimit)
  from addAPIKey_returned [OF this, of test_now test_state]
  obtain k2 where k2: "fst ?r2 = Success k2"
    by (simp add: Let_def)
  then have h2: "?r2 = (Success k2, fst (snd ?r2), snd (snd ?r2))"
    by (metis prod.collapse)
  note stored = addAPIKey_stores_encrypted_key [OF h]
  from stored h2 have "k2\<lparr>encryptedKey := encryptedKey test_newKey\<rparr> = test_newKey"
    by blast
  with k2 stored show ?thesis
    by (simp add: u key)
qed

end
